theory Spec2Isabelle
  imports Complex_Main
begin

section \<open>Claude API pricing module (src/api/pricing.ts)\<close>

text \<open>
  The module holds a table of per-million-token rates keyed by model identifier, a
  default rate record, the resolver \<open>getModelPricing\<close> and the calculator
  \<open>calculateCost\<close>.

  Modelling decisions, each taken from the TypeScript source:
  \<^item> A JavaScript \<open>number\<close> is modelled by an exact rational, so the decimal literals of
    the table denote exactly their decimal value; binary rounding and the infinities are
    outside the model. The one non-rational value the code can produce, \<open>NaN\<close>, is kept
    (type \<open>number\<close> below), because arithmetic on \<open>undefined\<close> yields it.
  \<^item> A model identifier is a \<open>string\<close>: a sequence of code units in the range 0 to 255.
  \<^item> \<open>getModelPricing\<close> returns an object by reference. The equal-valued entries of the
    table are different objects, so the result is modelled as a reference
    (\<open>pricing_ref\<close>) and the stored rates are read through \<open>pricing_of\<close>.
  \<^item> \<open>MODEL_PRICING\<close> is an object literal, so the property read \<open>MODEL_PRICING[model]\<close>
    first consults the own keys and then the prototype chain, that is,
    \<open>Object.prototype\<close>.
\<close>

subsection \<open>Numbers\<close>

datatype number = Num rat | NaN

instantiation number :: "{plus, times}"
begin

fun plus_number :: "number \<Rightarrow> number \<Rightarrow> number" where
  "plus_number (Num a) (Num b) = Num (a + b)"
| "plus_number _ _ = NaN"

fun times_number :: "number \<Rightarrow> number \<Rightarrow> number" where
  "times_number (Num a) (Num b) = Num (a * b)"
| "times_number _ _ = NaN"

instance ..

end

subsection \<open>Strings: \<open>toLowerCase\<close> and \<open>includes\<close>\<close>

text \<open>
  \<open>String.prototype.toLowerCase\<close> on code units below 256: the ASCII capitals
  \<open>A\<close> to \<open>Z\<close> (65 to 90) and the Latin-1 capitals (192 to 222 without the
  multiplication sign 215) move up by 32, every other unit is unchanged.
\<close>

definition toLowerCase_unit :: "char \<Rightarrow> char" where
  "toLowerCase_unit c =
     (let n = (of_char c :: nat) in
      if (65 \<le> n \<and> n \<le> 90) \<or> (192 \<le> n \<and> n \<le> 222 \<and> n \<noteq> 215)
      then char_of (n + 32) else c)"

definition toLowerCase :: "string \<Rightarrow> string" where
  "toLowerCase s = map toLowerCase_unit s"

text \<open>\<open>s.startsWith(pat)\<close> and \<open>s.includes(pat)\<close>: \<open>pat\<close> occurs in \<open>s\<close> as a
  contiguous substring.\<close>

fun startsWith :: "string \<Rightarrow> string \<Rightarrow> bool" where
  "startsWith s [] = True"
| "startsWith [] (p # ps) = False"
| "startsWith (c # cs) (p # ps) = (c = p \<and> startsWith cs ps)"

fun str_includes :: "string \<Rightarrow> string \<Rightarrow> bool" where
  "str_includes [] pat = (pat = [])"
| "str_includes (c # cs) pat = (startsWith (c # cs) pat \<or> str_includes cs pat)"

subsection \<open>The pricing table\<close>

record ModelPricing =
  inputPer1M :: rat
  outputPer1M :: rat
  cacheWritePer1M :: rat
  cacheReadPer1M :: rat

text \<open>The object literal \<open>MODEL_PRICING\<close>, its own properties in source order.\<close>

definition MODEL_PRICING :: "(string \<times> ModelPricing) list" where
  "MODEL_PRICING =
    [(''claude-opus-4-5-20250514'',
        \<lparr>inputPer1M = 15, outputPer1M = 75, cacheWritePer1M = 18.75, cacheReadPer1M = 1.5\<rparr>),
     (''claude-sonnet-4-20250514'',
        \<lparr>inputPer1M = 3, outputPer1M = 15, cacheWritePer1M = 3.75, cacheReadPer1M = 0.30\<rparr>),
     (''claude-3-5-sonnet-20241022'',
        \<lparr>inputPer1M = 3, outputPer1M = 15, cacheWritePer1M = 3.75, cacheReadPer1M = 0.30\<rparr>),
     (''claude-3-5-sonnet-latest'',
        \<lparr>inputPer1M = 3, outputPer1M = 15, cacheWritePer1M = 3.75, cacheReadPer1M = 0.30\<rparr>),
     (''claude-3-5-sonnet-20240620'',
        \<lparr>inputPer1M = 3, outputPer1M = 15, cacheWritePer1M = 3.75, cacheReadPer1M = 0.30\<rparr>),
     (''claude-3-5-haiku-20241022'',
        \<lparr>inputPer1M = 0.80, outputPer1M = 4, cacheWritePer1M = 1.00, cacheReadPer1M = 0.08\<rparr>),
     (''claude-3-5-haiku-latest'',
        \<lparr>inputPer1M = 0.80, outputPer1M = 4, cacheWritePer1M = 1.00, cacheReadPer1M = 0.08\<rparr>),
     (''claude-3-opus-20240229'',
        \<lparr>inputPer1M = 15, outputPer1M = 75, cacheWritePer1M = 18.75, cacheReadPer1M = 1.5\<rparr>),
     (''claude-3-opus-latest'',
        \<lparr>inputPer1M = 15, outputPer1M = 75, cacheWritePer1M = 18.75, cacheReadPer1M = 1.5\<rparr>),
     (''claude-3-sonnet-20240229'',
        \<lparr>inputPer1M = 3, outputPer1M = 15, cacheWritePer1M = 3.75, cacheReadPer1M = 0.30\<rparr>),
     (''claude-3-haiku-20240307'',
        \<lparr>inputPer1M = 0.25, outputPer1M = 1.25, cacheWritePer1M = 0.3125,
         cacheReadPer1M = 0.025\<rparr>)]"

definition DEFAULT_PRICING :: ModelPricing where
  "DEFAULT_PRICING =
     \<lparr>inputPer1M = 3, outputPer1M = 15, cacheWritePer1M = 3.75, cacheReadPer1M = 0.30\<rparr>"

text \<open>
  The property names every object literal inherits from \<open>Object.prototype\<close>. Each of
  them holds a function, except \<open>__proto__\<close>, which reads as \<open>Object.prototype\<close>
  itself; all twelve values are truthy and none has a rate field.
\<close>

definition Object_prototype_names :: "string list" where
  "Object_prototype_names =
    [''constructor'', ''hasOwnProperty'', ''isPrototypeOf'', ''propertyIsEnumerable'',
     ''toLocaleString'', ''toString'', ''valueOf'', ''__proto__'',
     ''__defineGetter__'', ''__defineSetter__'', ''__lookupGetter__'', ''__lookupSetter__'']"

text \<open>The objects \<open>getModelPricing\<close> can return.\<close>

datatype pricing_ref =
    DEFAULT_PRICING_ref
  | MODEL_PRICING_ref string
  | Object_prototype_ref string

text \<open>
  The property read \<open>MODEL_PRICING[key]\<close>: an own property wins, then an inherited
  one, otherwise the read gives \<open>undefined\<close> (\<open>None\<close>).
\<close>

definition MODEL_PRICING_get :: "string \<Rightarrow> pricing_ref option" where
  "MODEL_PRICING_get key =
     (if key \<in> set (map fst MODEL_PRICING) then Some (MODEL_PRICING_ref key)
      else if key \<in> set Object_prototype_names then Some (Object_prototype_ref key)
      else None)"

text \<open>The rate record stored in an object, \<open>None\<close> for an object without rate fields.\<close>

definition pricing_of :: "pricing_ref \<Rightarrow> ModelPricing option" where
  "pricing_of r =
     (case r of
        DEFAULT_PRICING_ref \<Rightarrow> Some DEFAULT_PRICING
      | MODEL_PRICING_ref key \<Rightarrow> map_of MODEL_PRICING key
      | Object_prototype_ref key \<Rightarrow> None)"

subsection \<open>\<open>getModelPricing\<close>\<close>

text \<open>
  \<open>!model\<close> holds for an absent argument and for the empty string. A truthy
  \<open>MODEL_PRICING[model]\<close> is returned as it is. The family tests follow in source order,
  each returning the table entry under a fixed key.
\<close>

fun getModelPricing :: "string option \<Rightarrow> pricing_ref" where
  "getModelPricing None = DEFAULT_PRICING_ref"
| "getModelPricing (Some model) =
     (if model = [] then DEFAULT_PRICING_ref
      else case MODEL_PRICING_get model of
        Some direct \<Rightarrow> direct
      | None \<Rightarrow>
         (let modelLower = toLowerCase model in
          if str_includes modelLower ''opus-4'' \<or> str_includes modelLower ''opus-4.5''
            then MODEL_PRICING_ref ''claude-opus-4-5-20250514''
          else if str_includes modelLower ''sonnet-4''
            then MODEL_PRICING_ref ''claude-sonnet-4-20250514''
          else if str_includes modelLower ''3-5-sonnet'' \<or> str_includes modelLower ''3.5-sonnet''
            then MODEL_PRICING_ref ''claude-3-5-sonnet-20241022''
          else if str_includes modelLower ''3-5-haiku'' \<or> str_includes modelLower ''3.5-haiku''
            then MODEL_PRICING_ref ''claude-3-5-haiku-20241022''
          else if str_includes modelLower ''opus''
            then MODEL_PRICING_ref ''claude-3-opus-20240229''
          else if str_includes modelLower ''haiku''
            then MODEL_PRICING_ref ''claude-3-haiku-20240307''
          else if str_includes modelLower ''sonnet''
            then MODEL_PRICING_ref ''claude-3-5-sonnet-20241022''
          else DEFAULT_PRICING_ref))"

subsection \<open>\<open>calculateCost\<close>\<close>

text \<open>
  Token counts are finite numbers; the two cache counts are optional properties,
  \<open>None\<close> when absent.
\<close>

record UsageTokens =
  input_tokens :: rat
  output_tokens :: rat
  cache_creation_input_tokens :: "rat option"
  cache_read_input_tokens :: "rat option"

record CostBreakdown =
  total :: number
  input :: number
  "output" :: number
  cacheWrite :: number
  cacheRead :: number

text \<open>\<open>x || 0\<close> on an optional count: \<open>undefined\<close> and \<open>0\<close> are falsy and give the
  right operand.\<close>

definition or_zero :: "rat option \<Rightarrow> rat" where
  "or_zero x = (case x of None \<Rightarrow> 0 | Some n \<Rightarrow> (if n = 0 then 0 else n))"

text \<open>
  The read \<open>pricing.f\<close> as an operand of \<open>*\<close>: the stored rate, or \<open>NaN\<close> when the
  object has no such field (the read gives \<open>undefined\<close>, which \<open>*\<close> converts to \<open>NaN\<close>).
\<close>

definition rate :: "(ModelPricing \<Rightarrow> rat) \<Rightarrow> pricing_ref \<Rightarrow> number" where
  "rate f r = (case pricing_of r of Some p \<Rightarrow> Num (f p) | None \<Rightarrow> NaN)"

definition calculateCost :: "UsageTokens \<Rightarrow> string option \<Rightarrow> CostBreakdown" where
  "calculateCost usage model =
     (let pricing = getModelPricing model;
          inputCost = Num (input_tokens usage / 1000000) * rate inputPer1M pricing;
          outputCost = Num (output_tokens usage / 1000000) * rate outputPer1M pricing;
          cacheWriteCost =
            Num (or_zero (cache_creation_input_tokens usage) / 1000000)
              * rate cacheWritePer1M pricing;
          cacheReadCost =
            Num (or_zero (cache_read_input_tokens usage) / 1000000)
              * rate cacheReadPer1M pricing
      in \<lparr>total = inputCost + outputCost + cacheWriteCost + cacheReadCost,
          input = inputCost,
          output = outputCost,
          cacheWrite = cacheWriteCost,
          cacheRead = cacheReadCost\<rparr>)"

subsection \<open>The specification's wording\<close>

text \<open>
  The family rules as the ordered list of the specification: the substrings of a rule
  and the table key it resolves to. The first rule with a substring that occurs in the
  lower-cased identifier decides; without such a rule the default record is the answer.
\<close>

definition family_rules :: "(string list \<times> string) list" where
  "family_rules =
    [([''opus-4'', ''opus-4.5''], ''claude-opus-4-5-20250514''),
     ([''sonnet-4''], ''claude-sonnet-4-20250514''),
     ([''3-5-sonnet'', ''3.5-sonnet''], ''claude-3-5-sonnet-20241022''),
     ([''3-5-haiku'', ''3.5-haiku''], ''claude-3-5-haiku-20241022''),
     ([''opus''], ''claude-3-opus-20240229''),
     ([''haiku''], ''claude-3-haiku-20240307''),
     ([''sonnet''], ''claude-3-5-sonnet-20241022'')]"

fun first_match :: "(string list \<times> string) list \<Rightarrow> string \<Rightarrow> string option" where
  "first_match [] s = None"
| "first_match ((pats, key) # rules) s =
     (if list_ex (str_includes s) pats then Some key else first_match rules s)"

definition family_resolve :: "string \<Rightarrow> pricing_ref" where
  "family_resolve model =
     (case first_match family_rules (toLowerCase model) of
        Some key \<Rightarrow> MODEL_PRICING_ref key
      | None \<Rightarrow> DEFAULT_PRICING_ref)"


text \<open>An optional cache count, read as zero when absent.\<close>

definition cache_count :: "rat option \<Rightarrow> rat" where
  "cache_count x = (case x of None \<Rightarrow> 0 | Some n \<Rightarrow> n)"


text \<open>The documented convention for the cache rates of a record.\<close>

definition cache_convention :: "ModelPricing \<Rightarrow> bool" where
  "cache_convention p \<longleftrightarrow>
     cacheWritePer1M p = inputPer1M p * 1.25 \<and> cacheReadPer1M p = inputPer1M p * 0.10"

section \<open>Properties of the resolver\<close>

declare getModelPricing.simps(2) [simp del]

subsection \<open>The string functions and the table\<close>

lemma eq_char_of_iff: "c = char_of n \<longleftrightarrow> take_bit 8 n = of_char c"
  using char_of_eq_iff [of n c] by auto

lemma startsWith_iff: "startsWith s pat \<longleftrightarrow> (\<exists>suf. s = pat @ suf)"
  by (induction s pat rule: startsWith.induct) auto

text \<open>\<open>str_includes\<close> is the substring relation.\<close>

lemma str_includes_iff: "str_includes s pat \<longleftrightarrow> (\<exists>pre suf. s = pre @ pat @ suf)"
proof (induction s)
  case Nil
  then show ?case by auto
next
  case (Cons c cs)
  show ?case
  proof
    assume "str_includes (c # cs) pat"
    then consider "startsWith (c # cs) pat" | "str_includes cs pat" by auto
    then show "\<exists>pre suf. c # cs = pre @ pat @ suf"
    proof cases
      case 1
      then obtain suf where "c # cs = pat @ suf" by (auto simp: startsWith_iff)
      then have "c # cs = [] @ pat @ suf" by simp
      then show ?thesis by blast
    next
      case 2
      then obtain pre suf where "cs = pre @ pat @ suf" using Cons.IH by auto
      then have "c # cs = (c # pre) @ pat @ suf" by simp
      then show ?thesis by blast
    qed
  next
    assume "\<exists>pre suf. c # cs = pre @ pat @ suf"
    then obtain pre suf where eq: "c # cs = pre @ pat @ suf" by blast
    show "str_includes (c # cs) pat"
    proof (cases pre)
      case Nil
      then have "startsWith (c # cs) pat" using eq by (auto simp: startsWith_iff)
      then show ?thesis by simp
    next
      case (Cons a pre')
      then have "cs = pre' @ pat @ suf" using eq by simp
      then have "str_includes cs pat" using Cons.IH by blast
      then show ?thesis by simp
    qed
  qed
qed

lemma MODEL_PRICING_keys:
  "map fst MODEL_PRICING =
     [''claude-opus-4-5-20250514'', ''claude-sonnet-4-20250514'',
      ''claude-3-5-sonnet-20241022'', ''claude-3-5-sonnet-latest'',
      ''claude-3-5-sonnet-20240620'', ''claude-3-5-haiku-20241022'',
      ''claude-3-5-haiku-latest'', ''claude-3-opus-20240229'', ''claude-3-opus-latest'',
      ''claude-3-sonnet-20240229'', ''claude-3-haiku-20240307'']"
  by (simp add: MODEL_PRICING_def)

text \<open>No key is written twice, so the association list reads as the object literal does.\<close>

lemma MODEL_PRICING_distinct: "distinct (map fst MODEL_PRICING)"
  by (simp add: MODEL_PRICING_keys)

lemma MODEL_PRICING_keys_nonempty: "[] \<notin> set (map fst MODEL_PRICING)"
  by (simp add: MODEL_PRICING_keys)

text \<open>Every key that a family rule returns is a key of the table.\<close>

lemma family_rules_targets: "set (map snd family_rules) \<subseteq> set (map fst MODEL_PRICING)"
  by (simp add: family_rules_def MODEL_PRICING_keys)

lemma MODEL_PRICING_get_None_iff:
  "MODEL_PRICING_get key = None \<longleftrightarrow>
     key \<notin> set (map fst MODEL_PRICING) \<and> key \<notin> set Object_prototype_names"
  by (simp add: MODEL_PRICING_get_def)

subsection \<open>Exact match, family match, default\<close>

lemma getModelPricing_key:
  assumes "key \<in> set (map fst MODEL_PRICING)"
  shows "getModelPricing (Some key) = MODEL_PRICING_ref key"
proof -
  have "key \<noteq> []" using assms MODEL_PRICING_keys_nonempty by metis
  then show ?thesis using assms by (simp add: getModelPricing.simps MODEL_PRICING_get_def)
qed

lemma family_resolve_empty: "family_resolve [] = DEFAULT_PRICING_ref"
  by (simp add: family_resolve_def family_rules_def toLowerCase_def)

text \<open>
  Where the property read finds nothing, the code and the ordered rule list of the
  specification give the same answer: the first matching rule decides.
\<close>

lemma getModelPricing_family:
  assumes "MODEL_PRICING_get model = None"
  shows "getModelPricing (Some model) = family_resolve model"
proof (cases "model = []")
  case True
  then show ?thesis by (simp add: getModelPricing.simps family_resolve_empty)
next
  case False
  then show ?thesis using assms
    by (simp add: getModelPricing.simps family_resolve_def family_rules_def Let_def)
qed

text \<open>
  A string with \<open>sonnet\<close> in its lower-cased form that no earlier rule matches resolves
  to the entry of \<open>claude-3-5-sonnet-20241022\<close>, never to that of
  \<open>claude-3-sonnet-20240229\<close>.
\<close>

lemma getModelPricing_sonnet:
  assumes "MODEL_PRICING_get model = None"
    and "str_includes (toLowerCase model) ''sonnet''"
    and "\<not> str_includes (toLowerCase model) ''opus-4''"
    and "\<not> str_includes (toLowerCase model) ''opus-4.5''"
    and "\<not> str_includes (toLowerCase model) ''sonnet-4''"
    and "\<not> str_includes (toLowerCase model) ''3-5-haiku''"
    and "\<not> str_includes (toLowerCase model) ''3.5-haiku''"
    and "\<not> str_includes (toLowerCase model) ''opus''"
    and "\<not> str_includes (toLowerCase model) ''haiku''"
  shows "getModelPricing (Some model) = MODEL_PRICING_ref ''claude-3-5-sonnet-20241022''"
proof -
  have "model \<noteq> []" using assms(2) by (auto simp: toLowerCase_def)
  then show ?thesis using assms by (simp add: getModelPricing.simps Let_def)
qed

text \<open>
  Outside the inherited property names, the default object is returned exactly for the
  strings that are no key and match no family rule.
\<close>

lemma getModelPricing_default_iff:
  assumes "model \<notin> set Object_prototype_names"
  shows "getModelPricing (Some model) = DEFAULT_PRICING_ref \<longleftrightarrow>
           model \<notin> set (map fst MODEL_PRICING) \<and>
           first_match family_rules (toLowerCase model) = None"
proof (cases "model \<in> set (map fst MODEL_PRICING)")
  case True
  then show ?thesis by (simp add: getModelPricing_key)
next
  case False
  then have "MODEL_PRICING_get model = None"
    using assms by (simp add: MODEL_PRICING_get_None_iff)
  then have "getModelPricing (Some model) = family_resolve model"
    by (rule getModelPricing_family)
  then show ?thesis using False
    by (simp add: family_resolve_def split: option.splits)
qed

text \<open>
  The default object holds the rates 3, 15, 3.75 and 0.30. It is the answer for an absent
  argument, for the empty string and for an unknown identifier.
\<close>

lemma getModelPricing_default_examples:
  "pricing_of DEFAULT_PRICING_ref =
     Some \<lparr>inputPer1M = 3, outputPer1M = 15, cacheWritePer1M = 3.75, cacheReadPer1M = 0.30\<rparr>"
  "getModelPricing None = DEFAULT_PRICING_ref"
  "getModelPricing (Some []) = DEFAULT_PRICING_ref"
  "getModelPricing (Some ''totally-unknown-model-xyz'') = DEFAULT_PRICING_ref"
  by (simp_all add: getModelPricing.simps pricing_of_def DEFAULT_PRICING_def
      MODEL_PRICING_get_def MODEL_PRICING_keys Object_prototype_names_def
      toLowerCase_def toLowerCase_unit_def char_of_eq_iff)

text \<open>
  The property names inherited from \<open>Object.prototype\<close> are found by the direct-match
  read, and they are the only strings for which the resolver returns an object without
  rate fields.
\<close>

lemma getModelPricing_inherited:
  assumes "name \<in> set Object_prototype_names"
  shows "getModelPricing (Some name) = Object_prototype_ref name"
proof -
  have "name \<noteq> []" "name \<notin> set (map fst MODEL_PRICING)"
    using assms by (auto simp: Object_prototype_names_def MODEL_PRICING_keys)
  then show ?thesis using assms by (simp add: getModelPricing.simps MODEL_PRICING_get_def)
qed

lemma first_match_target:
  "first_match rules s = Some key \<Longrightarrow> key \<in> set (map snd rules)"
  by (induction rules s rule: first_match.induct) (auto split: if_splits)

lemma pricing_of_key:
  "key \<in> set (map fst MODEL_PRICING) \<Longrightarrow> \<exists>p. pricing_of (MODEL_PRICING_ref key) = Some p"
  by (simp add: pricing_of_def) (metis map_of_eq_None_iff not_None_eq set_map)

lemma family_resolve_has_rates: "\<exists>p. pricing_of (family_resolve model) = Some p"
proof (cases "first_match family_rules (toLowerCase model)")
  case None
  then show ?thesis by (simp add: family_resolve_def pricing_of_def)
next
  case (Some key)
  then have "key \<in> set (map fst MODEL_PRICING)"
    using first_match_target family_rules_targets by blast
  then show ?thesis using Some by (simp add: family_resolve_def pricing_of_key)
qed

lemma getModelPricing_has_rates_iff:
  "(\<exists>p. pricing_of (getModelPricing (Some model)) = Some p) \<longleftrightarrow>
     model \<notin> set Object_prototype_names"
proof (cases "model \<in> set Object_prototype_names")
  case True
  then show ?thesis by (simp add: getModelPricing_inherited pricing_of_def)
next
  case False
  show ?thesis
  proof (cases "model \<in> set (map fst MODEL_PRICING)")
    case True
    then show ?thesis using False by (simp add: getModelPricing_key pricing_of_key)
  next
    case notkey: False
    then have "MODEL_PRICING_get model = None"
      using False by (simp add: MODEL_PRICING_get_None_iff)
    then show ?thesis using False
      by (simp add: getModelPricing_family family_resolve_has_rates)
  qed
qed

text \<open>
  No inherited property name matches a family rule. So every string that is no key of the
  table and has \<open>sonnet\<close> in its lower-cased form is one the direct-match read does
  not find, and the rule for \<open>sonnet\<close> applies to it as stated.
\<close>

lemma inherited_names_all_unmatched:
  "list_all (\<lambda>name. first_match family_rules (toLowerCase name) = None) Object_prototype_names"
  by (simp add: Object_prototype_names_def family_rules_def toLowerCase_def
      toLowerCase_unit_def char_of_eq_iff)

lemma inherited_names_match_no_rule:
  assumes "name \<in> set Object_prototype_names"
  shows "first_match family_rules (toLowerCase name) = None"
  using assms inherited_names_all_unmatched by (simp add: list_all_iff)

lemma first_match_sonnet_last:
  "str_includes s ''sonnet'' \<Longrightarrow> first_match family_rules s \<noteq> None"
  by (simp add: family_rules_def)

lemma getModelPricing_sonnet_not_key:
  assumes "model \<notin> set (map fst MODEL_PRICING)"
    and "str_includes (toLowerCase model) ''sonnet''"
    and "\<not> str_includes (toLowerCase model) ''opus-4''"
    and "\<not> str_includes (toLowerCase model) ''opus-4.5''"
    and "\<not> str_includes (toLowerCase model) ''sonnet-4''"
    and "\<not> str_includes (toLowerCase model) ''3-5-haiku''"
    and "\<not> str_includes (toLowerCase model) ''3.5-haiku''"
    and "\<not> str_includes (toLowerCase model) ''opus''"
    and "\<not> str_includes (toLowerCase model) ''haiku''"
  shows "getModelPricing (Some model) = MODEL_PRICING_ref ''claude-3-5-sonnet-20241022''"
proof -
  have "model \<notin> set Object_prototype_names"
    using assms(2) inherited_names_match_no_rule first_match_sonnet_last by blast
  then have "MODEL_PRICING_get model = None"
    using assms(1) by (simp add: MODEL_PRICING_get_None_iff)
  then show ?thesis using assms(2-) by (rule getModelPricing_sonnet)
qed

subsection \<open>The claims about the resolver\<close>

text \<open>
  The examples place the substring of the later rule in front of the substring of the
  earlier one: the order of the rules decides, not the position in the string.
\<close>

lemma getModelPricing_priority_examples:
  "getModelPricing (Some ''sonnet-4-opus-4'') = MODEL_PRICING_ref ''claude-opus-4-5-20250514''"
  "getModelPricing (Some ''3-5-sonnet-4'') = MODEL_PRICING_ref ''claude-sonnet-4-20250514''"
  "getModelPricing (Some ''3-5-haiku-3-5-sonnet'') = MODEL_PRICING_ref ''claude-3-5-sonnet-20241022''"
  "getModelPricing (Some ''opus-3-5-haiku'') = MODEL_PRICING_ref ''claude-3-5-haiku-20241022''"
  "getModelPricing (Some ''haiku-opus'') = MODEL_PRICING_ref ''claude-3-opus-20240229''"
  "getModelPricing (Some ''sonnet-haiku'') = MODEL_PRICING_ref ''claude-3-haiku-20240307''"
  "getModelPricing (Some ''Claude-3-Sonnet'') = MODEL_PRICING_ref ''claude-3-5-sonnet-20241022''"
  by (simp_all add: getModelPricing.simps MODEL_PRICING_get_def MODEL_PRICING_keys
      Object_prototype_names_def toLowerCase_def toLowerCase_unit_def char_of_eq_iff)

text \<open>
  A string that is no key of the table and that some family rule matches is not an
  inherited property name either, so the first matching rule decides its entry.
\<close>

lemma getModelPricing_first_match:
  assumes "model \<notin> set (map fst MODEL_PRICING)"
    and "first_match family_rules (toLowerCase model) = Some key"
  shows "getModelPricing (Some model) = MODEL_PRICING_ref key"
proof -
  have "model \<notin> set Object_prototype_names"
    using assms(2) inherited_names_match_no_rule by fastforce
  then have "MODEL_PRICING_get model = None"
    using assms(1) by (simp add: MODEL_PRICING_get_None_iff)
  then have "getModelPricing (Some model) = family_resolve model"
    by (rule getModelPricing_family)
  then show ?thesis using assms(2) by (simp add: family_resolve_def)
qed

text \<open>
  Claim C1. For every model string that is no key of the pricing table, the family rules
  are tried in their fixed order on the lower-cased string, and the first rule that
  matches decides the entry; a later rule is not consulted, wherever its substring
  stands in the string. In particular a string with \<open>sonnet\<close> in its lower-cased form
  that no earlier rule matches resolves to the entry of \<open>claude-3-5-sonnet-20241022\<close>,
  not to the entry of \<open>claude-3-sonnet-20240229\<close>.
\<close>

theorem getModelPricing_family_priority:
  "(model \<notin> set (map fst MODEL_PRICING) \<and>
      first_match family_rules (toLowerCase model) = Some key \<longrightarrow>
      getModelPricing (Some model) = MODEL_PRICING_ref key) \<and>
   (model \<notin> set (map fst MODEL_PRICING) \<and>
      str_includes (toLowerCase model) ''sonnet'' \<and>
      \<not> str_includes (toLowerCase model) ''opus-4'' \<and>
      \<not> str_includes (toLowerCase model) ''opus-4.5'' \<and>
      \<not> str_includes (toLowerCase model) ''sonnet-4'' \<and>
      \<not> str_includes (toLowerCase model) ''3-5-haiku'' \<and>
      \<not> str_includes (toLowerCase model) ''3.5-haiku'' \<and>
      \<not> str_includes (toLowerCase model) ''opus'' \<and>
      \<not> str_includes (toLowerCase model) ''haiku'' \<longrightarrow>
      getModelPricing (Some model) = MODEL_PRICING_ref ''claude-3-5-sonnet-20241022'' \<and>
      getModelPricing (Some model) \<noteq> MODEL_PRICING_ref ''claude-3-sonnet-20240229'') \<and>
   getModelPricing (Some ''sonnet-4-opus-4'') = MODEL_PRICING_ref ''claude-opus-4-5-20250514'' \<and>
   getModelPricing (Some ''3-5-sonnet-4'') = MODEL_PRICING_ref ''claude-sonnet-4-20250514'' \<and>
   getModelPricing (Some ''3-5-haiku-3-5-sonnet'') =
      MODEL_PRICING_ref ''claude-3-5-sonnet-20241022'' \<and>
   getModelPricing (Some ''opus-3-5-haiku'') = MODEL_PRICING_ref ''claude-3-5-haiku-20241022'' \<and>
   getModelPricing (Some ''haiku-opus'') = MODEL_PRICING_ref ''claude-3-opus-20240229'' \<and>
   getModelPricing (Some ''sonnet-haiku'') = MODEL_PRICING_ref ''claude-3-haiku-20240307'' \<and>
   getModelPricing (Some ''Claude-3-Sonnet'') = MODEL_PRICING_ref ''claude-3-5-sonnet-20241022''"
proof -
  have first: "getModelPricing (Some model) = MODEL_PRICING_ref key"
    if "model \<notin> set (map fst MODEL_PRICING)"
      "first_match family_rules (toLowerCase model) = Some key"
    using that by (rule getModelPricing_first_match)
  have sonnet: "getModelPricing (Some model) = MODEL_PRICING_ref ''claude-3-5-sonnet-20241022'' \<and>
      getModelPricing (Some model) \<noteq> MODEL_PRICING_ref ''claude-3-sonnet-20240229''"
    if "model \<notin> set (map fst MODEL_PRICING)"
      "str_includes (toLowerCase model) ''sonnet''"
      "\<not> str_includes (toLowerCase model) ''opus-4''"
      "\<not> str_includes (toLowerCase model) ''opus-4.5''"
      "\<not> str_includes (toLowerCase model) ''sonnet-4''"
      "\<not> str_includes (toLowerCase model) ''3-5-haiku''"
      "\<not> str_includes (toLowerCase model) ''3.5-haiku''"
      "\<not> str_includes (toLowerCase model) ''opus''"
      "\<not> str_includes (toLowerCase model) ''haiku''"
  proof -
    have "getModelPricing (Some model) = MODEL_PRICING_ref ''claude-3-5-sonnet-20241022''"
      using that by (rule getModelPricing_sonnet_not_key)
    then show ?thesis by simp
  qed
  show ?thesis using first sonnet getModelPricing_priority_examples by blast
qed

theorem getModelPricing_family_priority_witness:
  "''Legacy-Sonnet'' \<notin> set (map fst MODEL_PRICING) \<and>
   first_match family_rules (toLowerCase ''Legacy-Sonnet'') = Some ''claude-3-5-sonnet-20241022'' \<and>
   str_includes (toLowerCase ''Legacy-Sonnet'') ''sonnet'' \<and>
   \<not> str_includes (toLowerCase ''Legacy-Sonnet'') ''opus-4'' \<and>
   \<not> str_includes (toLowerCase ''Legacy-Sonnet'') ''opus-4.5'' \<and>
   \<not> str_includes (toLowerCase ''Legacy-Sonnet'') ''sonnet-4'' \<and>
   \<not> str_includes (toLowerCase ''Legacy-Sonnet'') ''3-5-haiku'' \<and>
   \<not> str_includes (toLowerCase ''Legacy-Sonnet'') ''3.5-haiku'' \<and>
   \<not> str_includes (toLowerCase ''Legacy-Sonnet'') ''opus'' \<and>
   \<not> str_includes (toLowerCase ''Legacy-Sonnet'') ''haiku'' \<and>
   getModelPricing (Some ''Legacy-Sonnet'') = MODEL_PRICING_ref ''claude-3-5-sonnet-20241022'' \<and>
   getModelPricing (Some ''Legacy-Sonnet'') \<noteq> MODEL_PRICING_ref ''claude-3-sonnet-20240229''"
proof -
  have l: "toLowerCase ''Legacy-Sonnet'' = ''legacy-sonnet''"
    by (simp add: toLowerCase_def toLowerCase_unit_def char_of_eq_iff)
  have h: "''Legacy-Sonnet'' \<notin> set (map fst MODEL_PRICING) \<and>
   first_match family_rules (toLowerCase ''Legacy-Sonnet'') = Some ''claude-3-5-sonnet-20241022'' \<and>
   str_includes (toLowerCase ''Legacy-Sonnet'') ''sonnet'' \<and>
   \<not> str_includes (toLowerCase ''Legacy-Sonnet'') ''opus-4'' \<and>
   \<not> str_includes (toLowerCase ''Legacy-Sonnet'') ''opus-4.5'' \<and>
   \<not> str_includes (toLowerCase ''Legacy-Sonnet'') ''sonnet-4'' \<and>
   \<not> str_includes (toLowerCase ''Legacy-Sonnet'') ''3-5-haiku'' \<and>
   \<not> str_includes (toLowerCase ''Legacy-Sonnet'') ''3.5-haiku'' \<and>
   \<not> str_includes (toLowerCase ''Legacy-Sonnet'') ''opus'' \<and>
   \<not> str_includes (toLowerCase ''Legacy-Sonnet'') ''haiku''"
    by (simp add: l MODEL_PRICING_keys family_rules_def)
  show ?thesis
    using h
      getModelPricing_family_priority [of "''Legacy-Sonnet''" "''claude-3-5-sonnet-20241022''"]
    by blast
qed

text \<open>
  Claim C4. The default record is returned exactly for an absent argument and for a
  string that is neither a key of the table nor matched by a family rule. The code does
  so outside the inherited property names (\<open>getModelPricing_default_iff\<close>), but the
  string \<open>toString\<close> is no key, matches no family rule, and the code returns the
  inherited \<open>Object.prototype.toString\<close>, not the default record.
\<close>

theorem getModelPricing_toString_not_default:
  "''toString'' \<notin> set (map fst MODEL_PRICING) \<and>
   first_match family_rules (toLowerCase ''toString'') = None \<and>
   getModelPricing (Some ''toString'') = Object_prototype_ref ''toString'' \<and>
   getModelPricing (Some ''toString'') \<noteq> DEFAULT_PRICING_ref"
  by (simp add: getModelPricing.simps MODEL_PRICING_keys family_rules_def
      toLowerCase_def toLowerCase_unit_def char_of_eq_iff MODEL_PRICING_get_def
      Object_prototype_names_def)

text \<open>
  Claim C5. A string that is a key of the pricing table resolves to exactly the entry
  under that key, with the rates stored there. The family rules see only the lower-cased
  identifier: two strings that the property read does not find and that agree after
  lower-casing resolve alike. The exact lookup compares the string as given:
  \<open>claude-3-opus-latest\<close> is its own entry, while \<open>Claude-3-Opus-Latest\<close>, equal to
  it after lower-casing, falls to the family rule for \<open>opus\<close>. The exact match comes
  first: the key \<open>claude-3-sonnet-20240229\<close> resolves to its own entry, although the
  family rules alone would send it to the entry of \<open>claude-3-5-sonnet-20241022\<close>.
\<close>

theorem getModelPricing_exact_match:
  "(map_of MODEL_PRICING key = Some p \<longrightarrow>
      getModelPricing (Some key) = MODEL_PRICING_ref key \<and>
      pricing_of (getModelPricing (Some key)) = Some p) \<and>
   (MODEL_PRICING_get a = None \<and> MODEL_PRICING_get b = None \<and>
      toLowerCase a = toLowerCase b \<longrightarrow>
      getModelPricing (Some a) = getModelPricing (Some b)) \<and>
   getModelPricing (Some ''claude-3-5-sonnet-20241022'') =
      MODEL_PRICING_ref ''claude-3-5-sonnet-20241022'' \<and>
   getModelPricing (Some ''claude-3-opus-latest'') = MODEL_PRICING_ref ''claude-3-opus-latest'' \<and>
   toLowerCase ''Claude-3-Opus-Latest'' = ''claude-3-opus-latest'' \<and>
   getModelPricing (Some ''Claude-3-Opus-Latest'') = MODEL_PRICING_ref ''claude-3-opus-20240229'' \<and>
   getModelPricing (Some ''claude-3-sonnet-20240229'') =
      MODEL_PRICING_ref ''claude-3-sonnet-20240229'' \<and>
   family_resolve ''claude-3-sonnet-20240229'' = MODEL_PRICING_ref ''claude-3-5-sonnet-20241022''"
proof -
  have exact: "getModelPricing (Some key) = MODEL_PRICING_ref key \<and>
      pricing_of (getModelPricing (Some key)) = Some p"
    if "map_of MODEL_PRICING key = Some p"
  proof -
    have "key \<in> set (map fst MODEL_PRICING)"
      using that by (metis map_of_eq_None_iff option.distinct(1) set_map)
    then have "getModelPricing (Some key) = MODEL_PRICING_ref key"
      by (rule getModelPricing_key)
    then show ?thesis using that by (simp add: pricing_of_def)
  qed
  have family: "getModelPricing (Some a) = getModelPricing (Some b)"
    if "MODEL_PRICING_get a = None" "MODEL_PRICING_get b = None" "toLowerCase a = toLowerCase b"
    using that by (simp add: getModelPricing_family family_resolve_def)
  have k1: "getModelPricing (Some ''claude-3-5-sonnet-20241022'') =
      MODEL_PRICING_ref ''claude-3-5-sonnet-20241022''"
    by (rule getModelPricing_key) (simp add: MODEL_PRICING_keys)
  have k2: "getModelPricing (Some ''claude-3-opus-latest'') =
      MODEL_PRICING_ref ''claude-3-opus-latest''"
    by (rule getModelPricing_key) (simp add: MODEL_PRICING_keys)
  have l: "toLowerCase ''Claude-3-Opus-Latest'' = ''claude-3-opus-latest''"
    by (simp add: toLowerCase_def toLowerCase_unit_def char_of_eq_iff)
  have k3: "getModelPricing (Some ''Claude-3-Opus-Latest'') =
      MODEL_PRICING_ref ''claude-3-opus-20240229''"
    by (simp add: getModelPricing.simps l MODEL_PRICING_get_def MODEL_PRICING_keys
        Object_prototype_names_def)
  have k4: "getModelPricing (Some ''claude-3-sonnet-20240229'') =
      MODEL_PRICING_ref ''claude-3-sonnet-20240229''"
    by (rule getModelPricing_key) (simp add: MODEL_PRICING_keys)
  have f4: "family_resolve ''claude-3-sonnet-20240229'' =
      MODEL_PRICING_ref ''claude-3-5-sonnet-20241022''"
    by (simp add: family_resolve_def family_rules_def toLowerCase_def toLowerCase_unit_def
        char_of_eq_iff)
  show ?thesis using exact family k1 k2 l k3 k4 f4 by blast
qed

theorem getModelPricing_exact_match_witness:
  "map_of MODEL_PRICING ''claude-3-haiku-20240307'' =
      Some \<lparr>inputPer1M = 0.25, outputPer1M = 1.25, cacheWritePer1M = 0.3125,
            cacheReadPer1M = 0.025\<rparr> \<and>
   getModelPricing (Some ''claude-3-haiku-20240307'') =
      MODEL_PRICING_ref ''claude-3-haiku-20240307'' \<and>
   pricing_of (getModelPricing (Some ''claude-3-haiku-20240307'')) =
      Some \<lparr>inputPer1M = 0.25, outputPer1M = 1.25, cacheWritePer1M = 0.3125,
            cacheReadPer1M = 0.025\<rparr> \<and>
   MODEL_PRICING_get ''My-Haiku'' = None \<and> MODEL_PRICING_get ''MY-haiku'' = None \<and>
   toLowerCase ''My-Haiku'' = toLowerCase ''MY-haiku'' \<and>
   getModelPricing (Some ''My-Haiku'') = getModelPricing (Some ''MY-haiku'')"
proof -
  let ?p = "\<lparr>inputPer1M = 0.25, outputPer1M = 1.25, cacheWritePer1M = 0.3125,
            cacheReadPer1M = 0.025 :: rat\<rparr>"
  have h1: "map_of MODEL_PRICING ''claude-3-haiku-20240307'' = Some ?p"
    by (simp add: MODEL_PRICING_def)
  have h2: "MODEL_PRICING_get ''My-Haiku'' = None \<and> MODEL_PRICING_get ''MY-haiku'' = None \<and>
   toLowerCase ''My-Haiku'' = toLowerCase ''MY-haiku''"
    by (simp add: MODEL_PRICING_get_def MODEL_PRICING_keys Object_prototype_names_def
        toLowerCase_def toLowerCase_unit_def char_of_eq_iff eq_char_of_iff)
  show ?thesis
    using h1 h2
      getModelPricing_exact_match [of "''claude-3-haiku-20240307''" ?p "''My-Haiku''" "''MY-haiku''"]
    by (simp add: pricing_of_def)
qed

text \<open>
  Claim C6. The mixed-case string \<open>Claude-Opus-4-5-Preview\<close> is no key of the table.
  It does not contain \<open>opus-4\<close> as written, its lower-cased form does, and it resolves
  through the first family rule to the entry of \<open>claude-opus-4-5-20250514\<close> with the
  rates 15, 75, 18.75 and 1.5.
\<close>

theorem getModelPricing_mixed_case_opus_4_5:
  "''Claude-Opus-4-5-Preview'' \<notin> set (map fst MODEL_PRICING) \<and>
   \<not> str_includes ''Claude-Opus-4-5-Preview'' ''opus-4'' \<and>
   str_includes (toLowerCase ''Claude-Opus-4-5-Preview'') ''opus-4'' \<and>
   getModelPricing (Some ''Claude-Opus-4-5-Preview'') =
     MODEL_PRICING_ref ''claude-opus-4-5-20250514'' \<and>
   pricing_of (getModelPricing (Some ''Claude-Opus-4-5-Preview'')) =
     Some \<lparr>inputPer1M = 15, outputPer1M = 75, cacheWritePer1M = 18.75, cacheReadPer1M = 1.5\<rparr>"
  by (simp add: getModelPricing.simps MODEL_PRICING_keys MODEL_PRICING_get_def
      Object_prototype_names_def toLowerCase_def toLowerCase_unit_def char_of_eq_iff pricing_of_def)
     (simp add: MODEL_PRICING_def)

section \<open>Properties of the calculator\<close>

subsection \<open>The fields of the breakdown\<close>

lemma or_zero_eq: "or_zero x = cache_count x"
  by (simp add: or_zero_def cache_count_def split: option.splits)

lemma rate_Some: "pricing_of r = Some p \<Longrightarrow> rate f r = Num (f p)"
  by (simp add: rate_def)






text \<open>The total is the sum of the four components, for every usage and every model.\<close>

lemma calculateCost_total:
  "total (calculateCost usage model) =
     input (calculateCost usage model) + output (calculateCost usage model)
       + cacheWrite (calculateCost usage model) + cacheRead (calculateCost usage model)"
  by (simp add: calculateCost_def Let_def)

text \<open>All-zero usage costs nothing whenever the resolver returns an object with rates.\<close>

lemma calculateCost_zero_usage:
  assumes "pricing_of (getModelPricing model) = Some p"
  shows "total (calculateCost \<lparr>input_tokens = 0, output_tokens = 0,
            cache_creation_input_tokens = None, cache_read_input_tokens = None\<rparr> model) = Num 0"
  using assms by (simp add: calculateCost_def Let_def rate_Some or_zero_def)


subsection \<open>The claims about the calculator\<close>

text \<open>
  Claim C2. For every usage and every optional model string, each of the four cost
  components is the token count divided by 1,000,000 times the matching per-million rate
  stored in the record that \<open>getModelPricing\<close> resolves for that model; an absent cache
  count is read as zero.
\<close>

theorem calculateCost_component_formula:
  "pricing_of (getModelPricing model) = Some p \<longrightarrow>
     input (calculateCost usage model) = Num (input_tokens usage / 1000000 * inputPer1M p) \<and>
     output (calculateCost usage model) = Num (output_tokens usage / 1000000 * outputPer1M p) \<and>
     cacheWrite (calculateCost usage model) =
       Num (cache_count (cache_creation_input_tokens usage) / 1000000 * cacheWritePer1M p) \<and>
     cacheRead (calculateCost usage model) =
       Num (cache_count (cache_read_input_tokens usage) / 1000000 * cacheReadPer1M p)"
  by (simp add: calculateCost_def Let_def rate_def or_zero_eq)

theorem calculateCost_component_formula_witness:
  "pricing_of (getModelPricing (Some ''claude-3-haiku-20240307'')) =
     Some \<lparr>inputPer1M = 0.25, outputPer1M = 1.25, cacheWritePer1M = 0.3125,
           cacheReadPer1M = 0.025\<rparr> \<and>
   input (calculateCost \<lparr>input_tokens = 4000000, output_tokens = 2000000,
       cache_creation_input_tokens = Some 8000000, cache_read_input_tokens = None\<rparr>
     (Some ''claude-3-haiku-20240307'')) = Num 1 \<and>
   output (calculateCost \<lparr>input_tokens = 4000000, output_tokens = 2000000,
       cache_creation_input_tokens = Some 8000000, cache_read_input_tokens = None\<rparr>
     (Some ''claude-3-haiku-20240307'')) = Num 2.5 \<and>
   cacheWrite (calculateCost \<lparr>input_tokens = 4000000, output_tokens = 2000000,
       cache_creation_input_tokens = Some 8000000, cache_read_input_tokens = None\<rparr>
     (Some ''claude-3-haiku-20240307'')) = Num 2.5 \<and>
   cacheRead (calculateCost \<lparr>input_tokens = 4000000, output_tokens = 2000000,
       cache_creation_input_tokens = Some 8000000, cache_read_input_tokens = None\<rparr>
     (Some ''claude-3-haiku-20240307'')) = Num 0"
proof -
  let ?p = "\<lparr>inputPer1M = 0.25, outputPer1M = 1.25, cacheWritePer1M = 0.3125,
            cacheReadPer1M = 0.025 :: rat\<rparr>"
  let ?u = "\<lparr>input_tokens = 4000000, output_tokens = 2000000,
       cache_creation_input_tokens = Some 8000000, cache_read_input_tokens = None\<rparr>"
  have k: "getModelPricing (Some ''claude-3-haiku-20240307'') =
      MODEL_PRICING_ref ''claude-3-haiku-20240307''"
    by (rule getModelPricing_key) (simp add: MODEL_PRICING_keys)
  have h: "pricing_of (getModelPricing (Some ''claude-3-haiku-20240307'')) = Some ?p"
    by (simp add: k pricing_of_def MODEL_PRICING_def)
  show ?thesis
    using h calculateCost_component_formula [of "Some ''claude-3-haiku-20240307''" ?p ?u]
    by (simp add: cache_count_def)
qed

text \<open>
  Claim C3. For every usage and every optional model string the total is the sum of the
  four components, and all-zero usage yields the total 0. The sum holds throughout
  (\<open>calculateCost_total\<close>), and all-zero usage gives 0 whenever the resolver returns an
  object with rates (\<open>calculateCost_zero_usage\<close>). For the model string \<open>valueOf\<close>
  the resolver returns the inherited \<open>Object.prototype.valueOf\<close>; its rate fields read
  \<open>undefined\<close>, and the total of all-zero usage is \<open>NaN\<close>, not 0.
\<close>

theorem calculateCost_zero_usage_valueOf:
  "getModelPricing (Some ''valueOf'') = Object_prototype_ref ''valueOf'' \<and>
   total (calculateCost \<lparr>input_tokens = 0, output_tokens = 0,
            cache_creation_input_tokens = None, cache_read_input_tokens = None\<rparr>
          (Some ''valueOf'')) = NaN"
proof -
  have r: "getModelPricing (Some ''valueOf'') = Object_prototype_ref ''valueOf''"
    by (simp add: getModelPricing.simps MODEL_PRICING_get_def MODEL_PRICING_keys
        Object_prototype_names_def)
  show ?thesis
    by (simp add: r calculateCost_def Let_def rate_def pricing_of_def)
qed

text \<open>
  Claim C7. Two million cache-write tokens and half a million cache-read tokens on
  \<open>claude-3-haiku-20240307\<close> cost 2 times 0.3125 = 0.625 and 0.5 times 0.025 = 0.0125,
  in total 0.6375, with input and output at 0; one million input tokens on
  \<open>claude-3-opus-20240229\<close> cost 15, every other component 0, in total 15.
\<close>

theorem calculateCost_examples:
  "calculateCost \<lparr>input_tokens = 0, output_tokens = 0,
       cache_creation_input_tokens = Some 2000000, cache_read_input_tokens = Some 500000\<rparr>
     (Some ''claude-3-haiku-20240307'') =
     \<lparr>total = Num 0.6375, input = Num 0, output = Num 0, cacheWrite = Num 0.625,
      cacheRead = Num 0.0125\<rparr> \<and>
   (2 :: rat) * 0.3125 = 0.625 \<and> (0.5 :: rat) * 0.025 = 0.0125 \<and>
   calculateCost \<lparr>input_tokens = 1000000, output_tokens = 0,
       cache_creation_input_tokens = None, cache_read_input_tokens = None\<rparr>
     (Some ''claude-3-opus-20240229'') =
     \<lparr>total = Num 15, input = Num 15, output = Num 0, cacheWrite = Num 0, cacheRead = Num 0\<rparr>"
proof -
  have haiku: "getModelPricing (Some ''claude-3-haiku-20240307'') =
      MODEL_PRICING_ref ''claude-3-haiku-20240307''"
    by (rule getModelPricing_key) (simp add: MODEL_PRICING_keys)
  have opus: "getModelPricing (Some ''claude-3-opus-20240229'') =
      MODEL_PRICING_ref ''claude-3-opus-20240229''"
    by (rule getModelPricing_key) (simp add: MODEL_PRICING_keys)
  have ph: "pricing_of (MODEL_PRICING_ref ''claude-3-haiku-20240307'') =
      Some \<lparr>inputPer1M = 0.25, outputPer1M = 1.25, cacheWritePer1M = 0.3125,
            cacheReadPer1M = 0.025\<rparr>"
    by (simp add: pricing_of_def MODEL_PRICING_def)
  have po: "pricing_of (MODEL_PRICING_ref ''claude-3-opus-20240229'') =
      Some \<lparr>inputPer1M = 15, outputPer1M = 75, cacheWritePer1M = 18.75,
            cacheReadPer1M = 1.5\<rparr>"
    by (simp add: pricing_of_def MODEL_PRICING_def)
  show ?thesis
    by (simp add: calculateCost_def Let_def haiku opus rate_def ph po or_zero_def)
qed

text \<open>
  Claim C8. Every record of the pricing table, and the default record, has a cache-write
  rate of 1.25 times and a cache-read rate of 0.10 times its input rate. With the
  decimal literals read exactly, the two equations hold without any tolerance.
\<close>

theorem pricing_table_cache_convention:
  "list_all cache_convention (map snd MODEL_PRICING) \<and> cache_convention DEFAULT_PRICING"
  by (simp add: MODEL_PRICING_def DEFAULT_PRICING_def cache_convention_def)



end
